theory Spec2Isabelle
  imports Main
begin

section \<open>Data model (schema.prisma and the shared message types)\<close>

text \<open>
  The four services share one relational store. Each Prisma model is a record and each
  table a list of rows. Identifiers are the strings of the schema. The columns the
  handlers never read (names, timestamps) are left out. The two Float columns (price,
  balance) hold values of a type \<open>'f\<close> that the model does not fix: they are IEEE
  doubles, and the arithmetic on them is an argument of the handlers that compute with
  them. The Int column stockAmount is a 32-bit integer: the row holds an integer and
  the write that leaves the range fails.
\<close>

record Order =
  order_id :: string
  userId :: string
  order_products :: "string list"

record 'f User =
  user_id :: string
  balance :: 'f

record 'f Products =
  product_id :: string
  price :: 'f
  stockAmount :: int

record OrderTrack =
  track_id :: string
  orderId :: string
  status :: string

record 'f db =
  order_tbl :: "Order list"
  user_tbl :: "'f User list"
  products_tbl :: "'f Products list"
  orderTrack_tbl :: "OrderTrack list"

text \<open>The wire contract: a tagged union of three event kinds (types.ts).\<close>

datatype QueueMessage =
  OrderCreated string "string list"
  | InventoryChecked string bool
  | PaymentProcessed string string

text \<open>
  The JSON bodies the handlers write, and a response: the status with its body.
\<close>

datatype body =
  ErrorBody string
  | MsgBody string
  | CreateTrackerResponse string string
  | TrackerBody OrderTrack
  | CheckInventoryResponse string bool
  | PaymentProcessedResponse "string option" string
  | OrderCreatedBody string Order

type_synonym response = "nat \<times> body"

text \<open>
  What a handler leaves behind: the store, the first response written to the Express
  response object (none when the handler never answers), the messages handed to
  \<^verbatim>\<open>channel.publish\<close>, and whether the promise of the async handler rejected.
  A string field of a request body is \<open>None\<close> when it is absent; the guards
  \<^verbatim>\<open>!field\<close> of the handlers reject the absent and the empty string.
\<close>

record 'f effect =
  store :: "'f db"
  reply :: "response option"
  outbox :: "QueueMessage list"
  rejected :: bool

definition respond :: "'f db \<Rightarrow> nat \<Rightarrow> body \<Rightarrow> 'f effect" where
  "respond d st b = \<lparr>store = d, reply = Some (st, b), outbox = [], rejected = False\<rparr>"

definition silent :: "'f db \<Rightarrow> 'f effect" where
  "silent d = \<lparr>store = d, reply = None, outbox = [], rejected = False\<rparr>"

definition throws :: "'f db \<Rightarrow> 'f effect" where
  "throws d = \<lparr>store = d, reply = None, outbox = [], rejected = True\<rparr>"

definition publish :: "'f db \<Rightarrow> QueueMessage \<Rightarrow> 'f effect" where
  "publish d m = \<lparr>store = d, reply = None, outbox = [m], rejected = False\<rparr>"

section \<open>Storage operations\<close>

text \<open>
  The Prisma calls the handlers make, with the constraints of the schema: primary keys
  and \<^verbatim>\<open>orderId @unique\<close> reject a duplicate, a relation needs its target row,
  and \<^verbatim>\<open>update\<close> needs the row it addresses. A failing call throws.
\<close>

datatype prisma_error =
  UniqueConstraintFailed | RecordNotFound | ValueOutOfRange | StorageFailure

definition order_findUnique :: "'f db \<Rightarrow> string \<Rightarrow> Order option" where
  "order_findUnique d oid = find (\<lambda>r. order_id r = oid) (order_tbl d)"

definition orderTrack_findUnique :: "'f db \<Rightarrow> string \<Rightarrow> OrderTrack option" where
  "orderTrack_findUnique d tid = find (\<lambda>t. track_id t = tid) (orderTrack_tbl d)"

definition orderTrack_byOrder :: "'f db \<Rightarrow> string \<Rightarrow> OrderTrack option" where
  "orderTrack_byOrder d oid = find (\<lambda>t. orderId t = oid) (orderTrack_tbl d)"

definition orderTrack_create ::
  "'f db \<Rightarrow> string \<Rightarrow> string \<Rightarrow> string \<Rightarrow> prisma_error + (OrderTrack \<times> 'f db)" where
  "orderTrack_create d newId oid st =
     (if order_findUnique d oid = None then Inl RecordNotFound
      else if orderTrack_byOrder d oid \<noteq> None then Inl UniqueConstraintFailed
      else if orderTrack_findUnique d newId \<noteq> None then Inl UniqueConstraintFailed
      else
        let t = \<lparr>track_id = newId, orderId = oid, status = st\<rparr>
        in Inr (t, d\<lparr>orderTrack_tbl := orderTrack_tbl d @ [t]\<rparr>))"

definition orderTrack_update_id :: "'f db \<Rightarrow> string \<Rightarrow> string \<Rightarrow> prisma_error + 'f db" where
  "orderTrack_update_id d tid st =
     (if orderTrack_findUnique d tid = None then Inl RecordNotFound
      else Inr (d\<lparr>orderTrack_tbl :=
        map (\<lambda>t. if track_id t = tid then t\<lparr>status := st\<rparr> else t) (orderTrack_tbl d)\<rparr>))"

definition orderTrack_update_order :: "'f db \<Rightarrow> string \<Rightarrow> string \<Rightarrow> prisma_error + 'f db" where
  "orderTrack_update_order d oid st =
     (if orderTrack_byOrder d oid = None then Inl RecordNotFound
      else Inr (d\<lparr>orderTrack_tbl :=
        map (\<lambda>t. if orderId t = oid then t\<lparr>status := st\<rparr> else t) (orderTrack_tbl d)\<rparr>))"

section \<open>Order tracking service\<close>

text \<open>
  The consumer of the track queue. A delivery that is null, empty or not JSON is
  \<open>None\<close>. No storage call of this consumer sits in a try block, so a failing
  call rejects the handler's promise.
\<close>

fun track_consume :: "'f db \<Rightarrow> QueueMessage option \<Rightarrow> string \<Rightarrow> 'f effect" where
  "track_consume d None newId = silent d"
| "track_consume d (Some (OrderCreated oid productIds)) newId =
     (case orderTrack_create d newId oid ''created'' of
        Inl e \<Rightarrow> throws d
      | Inr (t, d') \<Rightarrow> silent d')"
| "track_consume d (Some (InventoryChecked oid isAvailable)) newId =
     (if isAvailable then silent d
      else case orderTrack_update_order d oid ''canceled'' of
        Inl e \<Rightarrow> throws d
      | Inr d' \<Rightarrow> silent d')"
| "track_consume d (Some (PaymentProcessed oid st)) newId =
     (let newStatus = (if st = ''success'' then ''paid'' else ''canceled'')
      in case orderTrack_update_order d oid newStatus of
        Inl e \<Rightarrow> throws d
      | Inr d' \<Rightarrow> silent d')"

text \<open>POST /api/v1/track/create.\<close>

definition track_create :: "'f db \<Rightarrow> string option \<Rightarrow> string \<Rightarrow> 'f effect" where
  "track_create d body_orderId newId =
     (case body_orderId of
        None \<Rightarrow> respond d 400 (ErrorBody ''orderId is required'')
      | Some oid \<Rightarrow>
          if oid = [] then respond d 400 (ErrorBody ''orderId is required'')
          else
            (case order_findUnique d oid of
               None \<Rightarrow> respond d 404 (ErrorBody (''Order '' @ oid @ '' not found''))
             | Some ord \<Rightarrow>
                 (case orderTrack_create d newId (order_id ord) ''created'' of
                    Inl e \<Rightarrow> respond d 500
                      (ErrorBody ''Internal Server Error while calling create tracker Endpoint'')
                  | Inr (tracker, d') \<Rightarrow> respond d' 201
                      (CreateTrackerResponse (track_id tracker) (status tracker)))))"

text \<open>
  PATCH /api/v1/track/update/:trackerId. The third guard writes its 400 and does not
  return. A second write to a response that was already sent throws
  (ERR_HTTP_HEADERS_SENT); inside the try block the catch clause then writes again,
  which throws out of the handler. The apostrophes of the 400 message are dropped.
\<close>

definition catch_send :: "'f db \<Rightarrow> response option \<Rightarrow> response \<Rightarrow> 'f effect" where
  "catch_send d res r500 =
     (case res of
        None \<Rightarrow> \<lparr>store = d, reply = Some r500, outbox = [], rejected = False\<rparr>
      | Some r0 \<Rightarrow> \<lparr>store = d, reply = Some r0, outbox = [], rejected = True\<rparr>)"

definition try_send :: "'f db \<Rightarrow> response option \<Rightarrow> response \<Rightarrow> response \<Rightarrow> 'f effect" where
  "try_send d res r r500 =
     (case res of
        None \<Rightarrow> \<lparr>store = d, reply = Some r, outbox = [], rejected = False\<rparr>
      | Some r0 \<Rightarrow> catch_send d res r500)"

definition track_update :: "'f db \<Rightarrow> string \<Rightarrow> string option \<Rightarrow> 'f effect" where
  "track_update d trackerId body_newStatus =
     (if trackerId = [] then respond d 400 (ErrorBody ''trackerId is required'')
      else case body_newStatus of
        None \<Rightarrow> respond d 400 (ErrorBody ''newStatus is required'')
        | Some newStatus \<Rightarrow>
          if newStatus = [] then respond d 400 (ErrorBody ''newStatus is required'')
          else
            let res = (if newStatus \<noteq> ''paid'' \<and> newStatus \<noteq> ''canceled''
                       then Some (400, ErrorBody ''newStatus must be either paid or canceled'')
                       else None);
                r500 = (500, ErrorBody ''Internal Server Error while updating tracker'')
            in (case orderTrack_findUnique d trackerId of
                  None \<Rightarrow> try_send d res
                    (404, ErrorBody (''Tracker '' @ trackerId @ '' not found'')) r500
                | Some tracker \<Rightarrow>
                    (case orderTrack_update_id d trackerId newStatus of
                       Inl e \<Rightarrow> catch_send d res r500
                     | Inr d' \<Rightarrow> try_send d' res (200, MsgBody ''Tracker updated'') r500)))"

text \<open>GET /api/v1/track/:trackerId.\<close>

definition track_get :: "'f db \<Rightarrow> string \<Rightarrow> 'f effect" where
  "track_get d trackerId =
     (if trackerId = [] then respond d 400 (ErrorBody ''trackerId is required'')
      else case orderTrack_findUnique d trackerId of
        None \<Rightarrow> respond d 404 (ErrorBody (''Tracker '' @ trackerId @ '' not found''))
      | Some tracker \<Rightarrow> respond d 200 (TrackerBody tracker))"

text \<open>
  One step of the tracking service: any of its three HTTP operations or one delivery
  from the track queue. The uuid a create would draw is part of the step.
\<close>

datatype track_op =
  PostCreate "string option" string
  | PatchUpdate string "string option"
  | GetTracker string
  | Consume "QueueMessage option" string

fun track_step :: "'f db \<Rightarrow> track_op \<Rightarrow> 'f effect" where
  "track_step d (PostCreate body_orderId newId) = track_create d body_orderId newId"
| "track_step d (PatchUpdate trackerId body_newStatus) = track_update d trackerId body_newStatus"
| "track_step d (GetTracker trackerId) = track_get d trackerId"
| "track_step d (Consume msg newId) = track_consume d msg newId"

fun track_run :: "'f db \<Rightarrow> track_op list \<Rightarrow> 'f db" where
  "track_run d [] = d"
| "track_run d (x # xs) = track_run (store (track_step d x)) xs"

section \<open>Inventory service\<close>

text \<open>
  \<^verbatim>\<open>products.findMany\<close> with \<^verbatim>\<open>id in productIds\<close>, the connect of the found
  products to the order (the implicit many-to-many relation holds a pair once), and
  \<^verbatim>\<open>products.updateMany\<close> with \<^verbatim>\<open>stockAmount: {decrement: 1}\<close>. The update is
  one statement over a 32-bit column: when the decrement takes one of the addressed
  rows out of the range, the statement fails and no row is changed.
\<close>

definition products_findMany :: "'f db \<Rightarrow> string list \<Rightarrow> 'f Products list" where
  "products_findMany d productIds =
     filter (\<lambda>p. product_id p \<in> set productIds) (products_tbl d)"

definition order_connect_products :: "'f db \<Rightarrow> string \<Rightarrow> string list \<Rightarrow> prisma_error + 'f db" where
  "order_connect_products d oid pids =
     (if order_findUnique d oid = None then Inl RecordNotFound
      else Inr (d\<lparr>order_tbl :=
        map (\<lambda>r. if order_id r = oid
                  then r\<lparr>order_products := List.union (order_products r) pids\<rparr> else r)
          (order_tbl d)\<rparr>))"

definition int32 :: "int \<Rightarrow> bool" where
  "int32 v = (- 2147483648 \<le> v \<and> v \<le> 2147483647)"

definition decrement_in_range :: "'f db \<Rightarrow> string list \<Rightarrow> bool" where
  "decrement_in_range d pids =
     list_all (\<lambda>p. int32 (stockAmount p - 1))
       (filter (\<lambda>p. product_id p \<in> set pids) (products_tbl d))"

definition decremented :: "'f db \<Rightarrow> string list \<Rightarrow> 'f db" where
  "decremented d pids =
     d\<lparr>products_tbl :=
       map (\<lambda>p. if product_id p \<in> set pids then p\<lparr>stockAmount := stockAmount p - 1\<rparr> else p)
         (products_tbl d)\<rparr>"

definition products_decrement :: "'f db \<Rightarrow> string list \<Rightarrow> prisma_error + 'f db" where
  "products_decrement d pids =
     (if \<not> decrement_in_range d pids then Inl ValueOutOfRange
      else Inr (decremented d pids))"

text \<open>
  The reduce over the requested identifiers that counts each one. The accumulator is
  a plain JavaScript object, so a read of a key that names a member of
  \<^verbatim>\<open>Object.prototype\<close> is not undefined even before the key was counted: the
  member plus 1 is a string (for \<^verbatim>\<open>__proto__\<close> the write is dropped and the read keeps
  giving the prototype), and from then on the entry is not a number.
\<close>

datatype entry = Count nat | NotANumber

definition object_prototype_keys :: "string list" where
  "object_prototype_keys =
     [''constructor'', ''__defineGetter__'', ''__defineSetter__'', ''hasOwnProperty'',
      ''__lookupGetter__'', ''__lookupSetter__'', ''isPrototypeOf'',
      ''propertyIsEnumerable'', ''toString'', ''valueOf'', ''__proto__'',
      ''toLocaleString'']"

definition group_step :: "(string \<rightharpoonup> entry) \<Rightarrow> string \<Rightarrow> (string \<rightharpoonup> entry)" where
  "group_step acc i =
     acc(i \<mapsto>
       (case acc i of
          None \<Rightarrow> if i \<in> set object_prototype_keys then NotANumber else Count 1
        | Some (Count c) \<Rightarrow> Count (c + 1)
        | Some NotANumber \<Rightarrow> NotANumber))"

definition groupedProducts :: "string list \<Rightarrow> (string \<rightharpoonup> entry)" where
  "groupedProducts productIds = foldl group_step Map.empty productIds"

text \<open>
  The \<^verbatim>\<open>every\<close> over the rows that were found: the entry of the row's identifier
  must be truthy and at most the row's stock. A count is truthy when it is not 0; an
  entry that is not a number is truthy and compares false with every number.
\<close>

definition isAvailable :: "'f Products list \<Rightarrow> (string \<rightharpoonup> entry) \<Rightarrow> bool" where
  "isAvailable products grouped =
     list_all (\<lambda>product.
        case grouped (product_id product) of
          None \<Rightarrow> False
        | Some (Count c) \<Rightarrow> c \<noteq> 0 \<and> int c \<le> stockAmount product
        | Some NotANumber \<Rightarrow> False) products"

text \<open>
  The consumer of the inventory queue. Its storage calls sit in a try block whose catch
  clause logs and returns.
\<close>

fun inventory_consume :: "'f db \<Rightarrow> QueueMessage option \<Rightarrow> 'f effect" where
  "inventory_consume d None = silent d"
| "inventory_consume d (Some (OrderCreated oid productIds)) =
     (let products = products_findMany d productIds in
      if products = [] then silent d
      else if isAvailable products (groupedProducts productIds)
      then (case order_connect_products d oid (map product_id products) of
              Inl e \<Rightarrow> silent d
            | Inr d' \<Rightarrow> publish d' (InventoryChecked oid True))
      else publish d (InventoryChecked oid False))"
| "inventory_consume d (Some (PaymentProcessed oid st)) =
     (if st = ''failed'' then silent d
      else case order_findUnique d oid of
        None \<Rightarrow> silent d
      | Some ord \<Rightarrow>
          (case products_decrement d (order_products ord) of
             Inl e \<Rightarrow> silent d
           | Inr d' \<Rightarrow> silent d'))"
| "inventory_consume d (Some (InventoryChecked oid available)) = silent d"

text \<open>GET /api/v1/inventory, the synchronous check and reservation.\<close>

definition inventory_check :: "'f db \<Rightarrow> string option \<Rightarrow> string list option \<Rightarrow> 'f effect" where
  "inventory_check d body_orderId body_productIds =
     (case (body_orderId, body_productIds) of
        (Some oid, Some productIds) \<Rightarrow>
          if oid = [] \<or> productIds = []
          then respond d 400 (ErrorBody ''orderId and productIds are required'')
          else
            (let products = products_findMany d productIds in
             if products = [] then respond d 404 (ErrorBody ''Products not found'')
             else if isAvailable products (groupedProducts productIds)
             then (case order_connect_products d oid (map product_id products) of
                     Inl e \<Rightarrow> respond d 500
                       (ErrorBody ''Internal Server Error while calling inventory Endpoint'')
                   | Inr d' \<Rightarrow> respond d' 200 (CheckInventoryResponse oid True))
             else respond d 200 (CheckInventoryResponse oid False))
      | _ \<Rightarrow> respond d 400 (ErrorBody ''orderId and productIds are required''))"

text \<open>PATCH /api/v1/inventory/update/:orderId, the stock decrement.\<close>

definition inventory_update :: "'f db \<Rightarrow> string \<Rightarrow> 'f effect" where
  "inventory_update d oid =
     (if oid = [] then respond d 400 (ErrorBody ''orderId is required'')
      else case order_findUnique d oid of
        None \<Rightarrow> respond d 404 (ErrorBody (''Order '' @ oid @ '' not found''))
      | Some ord \<Rightarrow>
          (case products_decrement d (order_products ord) of
             Inl e \<Rightarrow> respond d 500
               (ErrorBody ''Internal Server Error while calling update inventory Endpoint'')
           | Inr d' \<Rightarrow> respond d' 200 (MsgBody ''Inventory updated successfully'')))"

section \<open>Calls between the services\<close>

text \<open>
  The services call each other with axios, configured with
  \<^verbatim>\<open>validateStatus = status < 500\<close>: a call resolves with the response when the
  status is below 500 and rejects otherwise. A call to a service that cannot be reached
  rejects and leaves the store alone. The first argument tells whether the request
  reaches the service, the second is what the called handler does to the store; every
  handler that is called this way writes a response on each of its paths. An
  identifier that is put into the path of a request is taken to reach the handler as
  it is, as the uuids of the schema do.
\<close>

definition axios :: "bool \<Rightarrow> 'f effect \<Rightarrow> 'f db \<Rightarrow> 'f db \<times> response option" where
  "axios up e d =
     (if \<not> up then (d, None)
      else case reply e of
        None \<Rightarrow> (store e, None)
      | Some (st, b) \<Rightarrow> if st < 500 then (store e, Some (st, b)) else (store e, None))"

section \<open>Payment service\<close>

text \<open>
  Price and balance are Float columns: IEEE doubles as JavaScript numbers in the
  handler and as float8 in the store. The arithmetic on them is an argument of the
  model: the number 0 the reduce starts from, JavaScript's \<^verbatim>\<open>+\<close> and
  \<^verbatim>\<open><\<close>, and the store's \<^verbatim>\<open>balance - amount\<close>, which is \<open>None\<close> when the
  store raises instead of writing (a result out of the range of float8, an amount it
  does not accept).
\<close>

record 'f arith =
  f_zero :: 'f
  f_add :: "'f \<Rightarrow> 'f \<Rightarrow> 'f"
  f_less :: "'f \<Rightarrow> 'f \<Rightarrow> bool"
  f_sub :: "'f \<Rightarrow> 'f \<Rightarrow> 'f option"

text \<open>
  \<^verbatim>\<open>order.findUnique\<close> with the buyer's balance and the prices of the attached products
  included; a row whose required buyer is missing makes the query throw.
\<close>

definition attached :: "'f db \<Rightarrow> Order \<Rightarrow> 'f Products list" where
  "attached d ord = filter (\<lambda>p. product_id p \<in> set (order_products ord)) (products_tbl d)"

definition user_findUnique :: "'f db \<Rightarrow> string \<Rightarrow> 'f User option" where
  "user_findUnique d uid = find (\<lambda>u. user_id u = uid) (user_tbl d)"

definition order_with_payment ::
  "'f db \<Rightarrow> string \<Rightarrow> prisma_error + (Order \<times> 'f \<times> 'f list) option" where
  "order_with_payment d oid =
     (case order_findUnique d oid of
        None \<Rightarrow> Inr None
      | Some ord \<Rightarrow>
          (case user_findUnique d (userId ord) of
             None \<Rightarrow> Inl RecordNotFound
           | Some u \<Rightarrow> Inr (Some (ord, balance u, map price (attached d ord)))))"

text \<open>
  \<^verbatim>\<open>user.update\<close> with \<^verbatim>\<open>balance: {decrement: amount}\<close>. The write fails when the
  store cannot be reached (\<open>debit_ok\<close> is false), when the row is missing, and when
  the store's subtraction raises; a failed write changes nothing.
\<close>

definition debit_defined :: "'f arith \<Rightarrow> 'f db \<Rightarrow> string \<Rightarrow> 'f \<Rightarrow> bool" where
  "debit_defined ar d uid amount =
     list_all (\<lambda>u. f_sub ar (balance u) amount \<noteq> None)
       (filter (\<lambda>u. user_id u = uid) (user_tbl d))"

definition debit :: "'f arith \<Rightarrow> string \<Rightarrow> 'f \<Rightarrow> 'f User \<Rightarrow> 'f User" where
  "debit ar uid amount u =
     (if user_id u = uid
      then (case f_sub ar (balance u) amount of None \<Rightarrow> u | Some b \<Rightarrow> u\<lparr>balance := b\<rparr>)
      else u)"

definition user_decrement ::
  "'f arith \<Rightarrow> 'f db \<Rightarrow> string \<Rightarrow> 'f \<Rightarrow> bool \<Rightarrow> prisma_error + 'f db" where
  "user_decrement ar d uid amount debit_ok =
     (if \<not> debit_ok then Inl StorageFailure
      else if user_findUnique d uid = None then Inl RecordNotFound
      else if \<not> debit_defined ar d uid amount then Inl ValueOutOfRange
      else Inr (d\<lparr>user_tbl := map (debit ar uid amount) (user_tbl d)\<rparr>))"

text \<open>The reduce over the prices, from 0, with JavaScript's addition.\<close>

definition totalAmount :: "'f arith \<Rightarrow> 'f list \<Rightarrow> 'f" where
  "totalAmount ar prices = foldl (\<lambda>acc price. f_add ar acc price) (f_zero ar) prices"

text \<open>The consumer of the payment queue; it acts on \<^verbatim>\<open>inventory.checked\<close> only.\<close>

fun payment_consume :: "'f arith \<Rightarrow> 'f db \<Rightarrow> QueueMessage option \<Rightarrow> bool \<Rightarrow> 'f effect" where
  "payment_consume ar d (Some (InventoryChecked oid available)) debit_ok =
     (if \<not> available then silent d
      else case order_with_payment d oid of
        Inl e \<Rightarrow> silent d
      | Inr None \<Rightarrow> publish d (PaymentProcessed oid ''failed'')
      | Inr (Some (ord, bal, prices)) \<Rightarrow>
          if f_less ar bal (totalAmount ar prices)
          then publish d (PaymentProcessed oid ''failed'')
          else (case user_decrement ar d (userId ord) (totalAmount ar prices) debit_ok of
                  Inl e \<Rightarrow> silent d
                | Inr d' \<Rightarrow> publish d' (PaymentProcessed oid ''success'')))"
| "payment_consume ar d m debit_ok = silent d"

declare payment_consume.simps [simp del]

text \<open>
  POST /api/v1/payment. After the balance check the handler calls the inventory
  service's stock decrement and then debits the buyer.
\<close>

definition payment_post ::
  "'f arith \<Rightarrow> 'f db \<Rightarrow> string option \<Rightarrow> bool \<Rightarrow> bool \<Rightarrow> 'f effect" where
  "payment_post ar d body_orderId inventory_up debit_ok =
     (case body_orderId of
        None \<Rightarrow> respond d 400 (PaymentProcessedResponse None ''failed'')
      | Some oid \<Rightarrow>
          if oid = [] then respond d 400 (PaymentProcessedResponse (Some oid) ''failed'')
          else
            (case order_with_payment d oid of
               Inl e \<Rightarrow> respond d 500
                 (ErrorBody ''Internal Server Error while processing payment'')
             | Inr None \<Rightarrow> respond d 404 (PaymentProcessedResponse (Some oid) ''failed'')
             | Inr (Some (ord, bal, prices)) \<Rightarrow>
                 if f_less ar bal (totalAmount ar prices)
                 then respond d 400 (PaymentProcessedResponse (Some oid) ''failed'')
                 else
                   (case axios inventory_up (inventory_update d oid) d of
                      (d1, None) \<Rightarrow> respond d1 500
                        (ErrorBody ''Internal Server Error while calling inventory Endpoint'')
                    | (d1, Some (st, b)) \<Rightarrow>
                        if st \<noteq> 200
                        then respond d1 400 (PaymentProcessedResponse (Some oid) ''failed'')
                        else
                          (case user_decrement ar d1 (userId ord) (totalAmount ar prices)
                                  debit_ok of
                             Inl e \<Rightarrow> respond d1 500
                               (ErrorBody ''Internal Server Error while processing payment'')
                           | Inr d2 \<Rightarrow> respond d2 200
                               (PaymentProcessedResponse (Some (order_id ord)) ''success'')))))"

section \<open>Order service\<close>

text \<open>
  Every order is created for one fixed buyer. \<^verbatim>\<open>order.create\<close> connects that
  buyer, so it throws when the buyer's row is missing; the new row has no products.
\<close>

definition default_user :: string where
  "default_user = ''3c3e02d1-af13-412a-b309-5382155a6bd4''"

definition order_create :: "'f db \<Rightarrow> string \<Rightarrow> prisma_error + (Order \<times> 'f db)" where
  "order_create d newId =
     (if user_findUnique d default_user = None then Inl RecordNotFound
      else if order_findUnique d newId \<noteq> None then Inl UniqueConstraintFailed
      else
        let createdOrder = \<lparr>order_id = newId, userId = default_user, order_products = []\<rparr>
        in Inr (createdOrder, d\<lparr>order_tbl := order_tbl d @ [createdOrder]\<rparr>))"

text \<open>The fields the coordinator reads from the bodies of the responses it gets.\<close>

fun data_isAvailable :: "body \<Rightarrow> bool" where
  "data_isAvailable (CheckInventoryResponse oid available) = available"
| "data_isAvailable b = False"

fun data_trackerId :: "body \<Rightarrow> string" where
  "data_trackerId (CreateTrackerResponse tid st) = tid"
| "data_trackerId b = []"

fun data_status :: "body \<Rightarrow> string option" where
  "data_status (PaymentProcessedResponse oid st) = Some st"
| "data_status b = None"

text \<open>
  What surrounds one run of POST /api/v1/order: the uuids the store draws for the order
  and the tracker, which of the calls reach their service (the payment service's own
  call to the inventory service included), and whether the store can be reached for the
  debit.
\<close>

record env =
  newOrderId :: string
  newTrackerId :: string
  inventory_up :: bool
  tracking_create_up :: bool
  payment_up :: bool
  payment_inventory_up :: bool
  debit_ok :: bool
  tracking_update_up :: bool

text \<open>
  The payment step of POST /api/v1/order and what follows it: the try block around the
  payment call, with the compensating update to canceled inside it, and the confirming
  update to paid after it, which the outer try block covers.
\<close>

definition order_pay ::
  "'f arith \<Rightarrow> 'f db \<Rightarrow> env \<Rightarrow> Order \<Rightarrow> string \<Rightarrow> string \<Rightarrow> 'f effect" where
  "order_pay ar d ev createdOrder trackerId productId =
     (case axios (payment_up ev)
             (payment_post ar d (Some (order_id createdOrder)) (payment_inventory_up ev)
                (debit_ok ev)) d of
        (d1, None) \<Rightarrow> respond d1 500
          (ErrorBody ''Internal Server Error while calling payment Endpoint'')
      | (d1, Some (st, b)) \<Rightarrow>
          if st \<noteq> 200 \<or> data_status b \<noteq> Some ''success''
          then
            (case axios (tracking_update_up ev) (track_update d1 trackerId (Some ''canceled'')) d1 of
               (d2, None) \<Rightarrow> respond d2 500
                 (ErrorBody ''Internal Server Error while calling payment Endpoint'')
             | (d2, Some r) \<Rightarrow> respond d2 400
                 (ErrorBody (''Product '' @ productId @ '' couldnt be paid'')))
          else
            (case axios (tracking_update_up ev) (track_update d1 trackerId (Some ''paid'')) d1 of
               (d2, None) \<Rightarrow> respond d2 500
                 (ErrorBody ''Internal Server Error while creating order'')
             | (d2, Some r) \<Rightarrow> respond d2 201
                 (OrderCreatedBody ''Order Created and successfully paid'' createdOrder)))"

text \<open>POST /api/v1/order, the synchronous orchestration.\<close>

definition order_post_v1 :: "'f arith \<Rightarrow> 'f db \<Rightarrow> string option \<Rightarrow> env \<Rightarrow> 'f effect" where
  "order_post_v1 ar d body_productId ev =
     (case body_productId of
        None \<Rightarrow> respond d 400 (ErrorBody ''productId is required'')
      | Some productId \<Rightarrow>
          if productId = [] then respond d 400 (ErrorBody ''productId is required'')
          else
            (case order_create d (newOrderId ev) of
               Inl e \<Rightarrow> respond d 500 (ErrorBody ''Internal Server Error while creating order'')
             | Inr (createdOrder, d0) \<Rightarrow>
                 (case axios (inventory_up ev)
                         (inventory_check d0 (Some (order_id createdOrder)) (Some [productId])) d0 of
                    (d1, None) \<Rightarrow> respond d1 500
                      (ErrorBody ''Internal Server Error while calling inventory Endpoint'')
                  | (d1, Some (st, b)) \<Rightarrow>
                      if st \<noteq> 200 \<or> \<not> data_isAvailable b
                      then respond d1 400 (ErrorBody (''Product '' @ productId @ '' not available''))
                      else
                        (case axios (tracking_create_up ev)
                                (track_create d1 (Some (order_id createdOrder)) (newTrackerId ev)) d1 of
                           (d2, None) \<Rightarrow> respond d2 500
                             (ErrorBody ''Internal Server Error while calling create tracker Endpoint'')
                         | (d2, Some (st2, b2)) \<Rightarrow>
                             if st2 \<noteq> 201
                             then respond d2 400 (ErrorBody
                               (''Failed to create tracker for order '' @ order_id createdOrder))
                             else order_pay ar d2 ev createdOrder (data_trackerId b2) productId))))"

text \<open>
  POST /api/v2/order, the asynchronous path. The channel is \<open>None\<close> while the
  broker connection has not been set up; otherwise it carries what
  \<^verbatim>\<open>channel.publish\<close> returns. Nothing in this handler is inside a try block: the
  create may throw, and the handler itself throws when there is no channel.
\<close>

definition order_post_v2 :: "'f db \<Rightarrow> string option \<Rightarrow> string \<Rightarrow> bool option \<Rightarrow> 'f effect" where
  "order_post_v2 d body_productId newId channel =
     (case body_productId of
        None \<Rightarrow> respond d 400 (ErrorBody ''productId is required'')
      | Some productId \<Rightarrow>
          if productId = [] then respond d 400 (ErrorBody ''productId is required'')
          else
            (case order_create d newId of
               Inl e \<Rightarrow> throws d
             | Inr (createdOrder, d') \<Rightarrow>
                 (case channel of
                    None \<Rightarrow> throws d'
                  | Some sent \<Rightarrow>
                      \<lparr>store = d',
                       reply = Some (if sent
                         then (201, OrderCreatedBody ''Order Created'' createdOrder)
                         else (500, ErrorBody
                           ''Internal Server Error while sending message to order queue'')),
                       outbox = [OrderCreated (order_id createdOrder) [productId]],
                       rejected = False\<rparr>)))"

section \<open>Example stores\<close>

definition paid_db :: "int db" where
  "paid_db = \<lparr>order_tbl = [\<lparr>order_id = ''o1'', userId = ''u1'', order_products = []\<rparr>],
     user_tbl = [\<lparr>user_id = ''u1'', balance = 0\<rparr>], products_tbl = [],
     orderTrack_tbl = [\<lparr>track_id = ''t1'', orderId = ''o1'', status = ''paid''\<rparr>]\<rparr>"

definition created_db :: "int db" where
  "created_db = \<lparr>order_tbl = [\<lparr>order_id = ''o1'', userId = ''u1'', order_products = []\<rparr>],
     user_tbl = [\<lparr>user_id = ''u1'', balance = 0\<rparr>], products_tbl = [],
     orderTrack_tbl = [\<lparr>track_id = ''t1'', orderId = ''o1'', status = ''created''\<rparr>]\<rparr>"

text \<open>
  The examples use whole amounts. On whole numbers below \<open>2^53\<close> the arithmetic of
  doubles is exact, so there it is the arithmetic of the integers.
\<close>

definition whole_amounts :: "int arith" where
  "whole_amounts = \<lparr>f_zero = 0, f_add = (\<lambda>x y. x + y), f_less = (\<lambda>x y. x < y),
     f_sub = (\<lambda>x y. Some (x - y))\<rparr>"

text \<open>
  A shop with one product (price 1, stock 100) and the fixed buyer; \<open>shop_db\<close> holds
  an order with the product attached and its tracker, \<open>fresh_db\<close> an order to which
  nothing is attached yet, \<open>seed_db\<close> no order at all. The buyer's balance is an
  argument.
\<close>

definition seed_db :: "int \<Rightarrow> int db" where
  "seed_db bal = \<lparr>order_tbl = [],
     user_tbl = [\<lparr>user_id = default_user, balance = bal\<rparr>],
     products_tbl = [\<lparr>product_id = ''p1'', price = 1, stockAmount = 100\<rparr>],
     orderTrack_tbl = []\<rparr>"

definition fresh_db :: "int \<Rightarrow> int db" where
  "fresh_db bal = (seed_db bal)\<lparr>order_tbl :=
     [\<lparr>order_id = ''o1'', userId = default_user, order_products = []\<rparr>]\<rparr>"

definition shop_db :: "int \<Rightarrow> int db" where
  "shop_db bal = (seed_db bal)\<lparr>order_tbl :=
     [\<lparr>order_id = ''o1'', userId = default_user, order_products = [''p1'']\<rparr>],
     orderTrack_tbl := [\<lparr>track_id = ''t1'', orderId = ''o1'', status = ''created''\<rparr>]\<rparr>"

definition all_up :: env where
  "all_up = \<lparr>newOrderId = ''o1'', newTrackerId = ''t1'', inventory_up = True,
     tracking_create_up = True, payment_up = True, payment_inventory_up = True,
     debit_ok = True, tracking_update_up = True\<rparr>"

section \<open>Order tracking: uniqueness and status projection\<close>

lemma orderId_status_update:
  "map orderId (map (\<lambda>t. if P t then t\<lparr>status := st\<rparr> else t) xs) = map orderId xs"
  by (induction xs) auto

lemma track_id_status_update:
  "map track_id (map (\<lambda>t. if P t then t\<lparr>status := st\<rparr> else t) xs) = map track_id xs"
  by (induction xs) auto

lemma orderTrack_create_orderIds:
  assumes "orderTrack_create d newId oid st = Inr (t, d')"
  shows "map orderId (orderTrack_tbl d') = map orderId (orderTrack_tbl d) @ [oid]
    \<and> oid \<notin> set (map orderId (orderTrack_tbl d))"
  using assms
  by (auto simp: orderTrack_create_def orderTrack_byOrder_def find_None_iff Let_def
      split: if_splits)

lemma orderTrack_update_id_orderIds:
  "orderTrack_update_id d tid st = Inr d' \<Longrightarrow>
     map orderId (orderTrack_tbl d') = map orderId (orderTrack_tbl d)"
  by (auto simp: orderTrack_update_id_def orderId_status_update split: if_splits)

lemma orderTrack_update_order_orderIds:
  "orderTrack_update_order d oid st = Inr d' \<Longrightarrow>
     map orderId (orderTrack_tbl d') = map orderId (orderTrack_tbl d)"
  by (auto simp: orderTrack_update_order_def orderId_status_update split: if_splits)

lemma track_create_unique:
  "distinct (map orderId (orderTrack_tbl d)) \<Longrightarrow>
     distinct (map orderId (orderTrack_tbl (store (track_create d b newId))))"
  by (auto simp: track_create_def respond_def dest!: orderTrack_create_orderIds
      split: option.splits sum.splits)

lemma track_update_unique:
  "distinct (map orderId (orderTrack_tbl d)) \<Longrightarrow>
     distinct (map orderId (orderTrack_tbl (store (track_update d tid b))))"
  by (auto simp: track_update_def respond_def try_send_def catch_send_def Let_def
      dest!: orderTrack_update_id_orderIds split: option.splits sum.splits)

lemma track_get_store: "store (track_get d tid) = d"
  by (simp add: track_get_def respond_def split: option.splits)

lemma track_consume_unique:
  "distinct (map orderId (orderTrack_tbl d)) \<Longrightarrow>
     distinct (map orderId (orderTrack_tbl (store (track_consume d m newId))))"
  by (cases "(d, m, newId)" rule: track_consume.cases)
     (auto simp: silent_def throws_def Let_def
      dest!: orderTrack_create_orderIds orderTrack_update_order_orderIds
      split: sum.splits)

lemma track_step_unique:
  "distinct (map orderId (orderTrack_tbl d)) \<Longrightarrow>
     distinct (map orderId (orderTrack_tbl (store (track_step d x))))"
  by (cases x) (simp_all add: track_create_unique track_update_unique track_get_store
      track_consume_unique)

lemma track_run_unique:
  "distinct (map orderId (orderTrack_tbl d)) \<Longrightarrow>
     distinct (map orderId (orderTrack_tbl (track_run d xs)))"
  by (induction xs arbitrary: d) (simp_all add: track_step_unique)

lemma distinct_map_filter_le1:
  "distinct (map f xs) \<Longrightarrow> length (filter (\<lambda>t. f t = k) xs) \<le> 1"
proof (induction xs)
  case Nil
  then show ?case by simp
next
  case (Cons a xs)
  show ?case
  proof (cases "f a = k")
    case True
    then have "filter (\<lambda>t. f t = k) xs = []"
      using Cons.prems by (simp add: filter_empty_conv image_iff) metis
    with True show ?thesis by simp
  next
    case False
    with Cons show ?thesis by simp
  qed
qed

lemma create_when_tracked:
  assumes "orderTrack_byOrder d oid \<noteq> None"
  shows "store (track_create d (Some oid) newId) = d
    \<and> map_option fst (reply (track_create d (Some oid) newId)) \<in> {Some 400, Some 404, Some 500}
    \<and> track_consume d (Some (OrderCreated oid ps)) newId = throws d"
  using assms
  by (auto simp: track_create_def respond_def orderTrack_create_def order_findUnique_def
      find_Some_iff split: option.splits)

text \<open>
  Claim C6. The order-track relation is unique: from a store in which no two trackers
  share an order, every run of operations of the tracking service leads to such a store,
  so at most one tracker exists per order. A create for an order that already has a
  tracker does not add one: the HTTP create answers 400, 404 or 500 and leaves the store
  as it was, and the consumer's create on \<^verbatim>\<open>order.created\<close> throws with the store as it was.
\<close>

theorem order_track_unique:
  assumes "distinct (map orderId (orderTrack_tbl d))"
  shows "distinct (map orderId (orderTrack_tbl (track_run d ops)))
    \<and> length (filter (\<lambda>t. orderId t = oid) (orderTrack_tbl (track_run d ops))) \<le> 1
    \<and> (orderTrack_byOrder d oid \<noteq> None \<longrightarrow>
         store (track_create d (Some oid) newId) = d
         \<and> map_option fst (reply (track_create d (Some oid) newId)) \<in> {Some 400, Some 404, Some 500}
         \<and> track_consume d (Some (OrderCreated oid ps)) newId = throws d)"
proof -
  have u: "distinct (map orderId (orderTrack_tbl (track_run d ops)))"
    using assms by (rule track_run_unique)
  have c: "length (filter (\<lambda>t. orderId t = oid) (orderTrack_tbl (track_run d ops))) \<le> 1"
    using u by (rule distinct_map_filter_le1)
  from u c create_when_tracked[of d oid newId ps] show ?thesis
    by blast
qed

lemma orderTrack_create_nth:
  assumes "orderTrack_create d newId oid st = Inr (t, d')" and "i < length (orderTrack_tbl d)"
  shows "orderTrack_tbl d' ! i = orderTrack_tbl d ! i"
  using assms
  by (auto simp: orderTrack_create_def Let_def nth_append split: if_splits)

lemma track_create_nth:
  "i < length (orderTrack_tbl d) \<Longrightarrow>
     orderTrack_tbl (store (track_create d b newId)) ! i = orderTrack_tbl d ! i"
  by (auto simp: track_create_def respond_def orderTrack_create_nth
      split: option.splits sum.splits)

lemma find_nth_not_None:
  assumes "i < length xs"
  shows "find (\<lambda>t. f t = f (xs ! i)) xs \<noteq> None"
proof
  assume "find (\<lambda>t. f t = f (xs ! i)) xs = None"
  then have "\<not> (\<exists>x. x \<in> set xs \<and> f x = f (xs ! i))"
    by (simp add: find_None_iff)
  moreover have "xs ! i \<in> set xs"
    using assms by simp
  ultimately show False by blast
qed

lemma orderTrack_update_order_nth:
  assumes "i < length (orderTrack_tbl d)"
  shows "orderTrack_update_order d (orderId (orderTrack_tbl d ! i)) st =
           Inr (d\<lparr>orderTrack_tbl :=
             map (\<lambda>t. if orderId t = orderId (orderTrack_tbl d ! i) then t\<lparr>status := st\<rparr> else t)
               (orderTrack_tbl d)\<rparr>)"
  using find_nth_not_None[OF assms, of orderId]
  by (simp add: orderTrack_update_order_def orderTrack_byOrder_def)

lemma orderTrack_update_order_other:
  assumes "i < length (orderTrack_tbl d)" and "oid \<noteq> orderId (orderTrack_tbl d ! i)"
    and "orderTrack_update_order d oid st = Inr d'"
  shows "orderTrack_tbl d' ! i = orderTrack_tbl d ! i"
  using assms
  by (auto simp: orderTrack_update_order_def split: if_splits)

lemma track_consume_nth:
  assumes "i < length (orderTrack_tbl d)" and "t = orderTrack_tbl d ! i"
  shows "orderTrack_tbl (store (track_consume d m newId)) ! i = t\<lparr>status :=
     (case m of
        Some (InventoryChecked oid available) \<Rightarrow>
          if oid = orderId t \<and> \<not> available then ''canceled'' else status t
      | Some (PaymentProcessed oid s) \<Rightarrow>
          if oid = orderId t then (if s = ''success'' then ''paid'' else ''canceled'')
          else status t
      | _ \<Rightarrow> status t)\<rparr>"
proof (cases "(d, m, newId)" rule: track_consume.cases)
  case (1 d' n)
  then show ?thesis using assms by (simp add: silent_def)
next
  case (2 d' oid ps n)
  then show ?thesis using assms
    by (auto simp: silent_def throws_def orderTrack_create_nth split: sum.splits)
next
  case (3 d' oid av n)
  then show ?thesis using assms
    by (cases "oid = orderId t")
       (auto simp: silent_def throws_def orderTrack_update_order_nth
          orderTrack_update_order_other split: sum.splits)
next
  case (4 d' oid s n)
  then show ?thesis using assms
    by (cases "oid = orderId t")
       (auto simp: silent_def throws_def Let_def orderTrack_update_order_nth
          orderTrack_update_order_other split: sum.splits)
qed

lemma track_update_nth:
  assumes "i < length (orderTrack_tbl d)" and "t = orderTrack_tbl d ! i"
  shows "orderTrack_tbl (store (track_update d tid b)) ! i = t\<lparr>status :=
     (case b of
        Some ns \<Rightarrow>
          if tid = track_id t \<and> tid \<noteq> [] \<and> ns \<noteq> [] then ns else status t
      | None \<Rightarrow> status t)\<rparr>"
proof (cases "tid = track_id t")
  case True
  then have "orderTrack_findUnique d tid \<noteq> None"
    using find_nth_not_None[OF assms(1), of track_id] assms(2)
    by (simp add: orderTrack_findUnique_def)
  then show ?thesis using assms True
    by (auto simp: track_update_def respond_def try_send_def catch_send_def Let_def
        orderTrack_update_id_def split: option.splits)
next
  case False
  then show ?thesis using assms
    by (auto simp: track_update_def respond_def try_send_def catch_send_def Let_def
        orderTrack_update_id_def split: option.splits)
qed

text \<open>
  Claim C1, as amended. A tracker is not protected by its status, terminal or not. One
  step of the tracking service leaves every stored tracker in place and writes its
  status as follows: \<^verbatim>\<open>inventory.checked\<close> with isAvailable false for its order writes
  canceled; \<^verbatim>\<open>payment.processed\<close> for its order writes paid on success and canceled
  otherwise; an update call for its identifier with newStatus paid or canceled writes
  that status; every other step leaves the status as it was. The steps are all those
  of the service but the update calls whose newStatus is some other non-empty string.
\<close>

theorem tracker_status_after_step:
  assumes "i < length (orderTrack_tbl d)" and "t = orderTrack_tbl d ! i"
    and "case x of
           PatchUpdate tid (Some ns) \<Rightarrow> ns = [] \<or> ns = ''paid'' \<or> ns = ''canceled''
         | _ \<Rightarrow> True"
  shows "orderTrack_tbl (store (track_step d x)) ! i = t\<lparr>status :=
     (case x of
        Consume (Some (InventoryChecked oid available)) n \<Rightarrow>
          if oid = orderId t \<and> \<not> available then ''canceled'' else status t
      | Consume (Some (PaymentProcessed oid s)) n \<Rightarrow>
          if oid = orderId t then (if s = ''success'' then ''paid'' else ''canceled'')
          else status t
      | PatchUpdate tid (Some ns) \<Rightarrow>
          if tid = track_id t \<and> tid \<noteq> [] \<and> (ns = ''paid'' \<or> ns = ''canceled'')
          then ns else status t
      | _ \<Rightarrow> status t)\<rparr>"
proof (cases x)
  case (PostCreate b n)
  then show ?thesis using assms by (simp add: track_create_nth)
next
  case (PatchUpdate tid b)
  then show ?thesis using track_update_nth[OF assms(1,2), of tid b] assms(3)
    by (auto split: option.splits)
next
  case (GetTracker tid)
  then show ?thesis using assms by (simp add: track_get_store)
next
  case (Consume m n)
  then show ?thesis using track_consume_nth[OF assms(1,2), of m n]
    by (simp split: option.splits QueueMessage.splits)
qed

text \<open>
  Claim C1 as stated fails: a tracker that is paid becomes canceled when a
  \<^verbatim>\<open>payment.processed\<close> event with status failed arrives for its order.
\<close>

theorem terminal_status_overwritten:
  "map status (orderTrack_tbl paid_db) = [''paid''] \<and>
   map status (orderTrack_tbl (store (track_step paid_db
     (Consume (Some (PaymentProcessed ''o1'' ''failed'')) ''t2'')))) = [''canceled'']"
  by (simp add: paid_db_def orderTrack_update_order_def orderTrack_byOrder_def silent_def)

text \<open>Claim C1, witness of the amended statement: an update call on a paid tracker.\<close>

theorem tracker_status_after_step_witness:
  "0 < length (orderTrack_tbl paid_db) \<and>
   orderTrack_tbl (store (track_step paid_db (PatchUpdate ''t1'' (Some ''canceled'')))) ! 0
     = \<lparr>track_id = ''t1'', orderId = ''o1'', status = ''canceled''\<rparr>"
  using tracker_status_after_step[of 0 paid_db "orderTrack_tbl paid_db ! 0"
      "PatchUpdate ''t1'' (Some ''canceled'')"]
  by (simp add: paid_db_def)

text \<open>
  Claim C3. The update call with newStatus shipped on a tracker in status created is
  answered 400, and the stored status is shipped afterwards: the guard on newStatus
  writes the 400 and does not return, so the update below it still runs.
\<close>

theorem track_update_invalid_status_written:
  "map_option fst (reply (track_update created_db ''t1'' (Some ''shipped''))) = Some 400 \<and>
   map status (orderTrack_tbl (store (track_update created_db ''t1'' (Some ''shipped''))))
     = [''shipped'']"
  by (simp add: created_db_def track_update_def orderTrack_findUnique_def
      orderTrack_update_id_def try_send_def catch_send_def)

text \<open>Claim C6, witness: two further creates for an order that has its tracker.\<close>

theorem order_track_unique_witness:
  "distinct (map orderId (orderTrack_tbl created_db)) \<and>
   orderTrack_byOrder created_db ''o1'' \<noteq> None \<and>
   length (filter (\<lambda>t. orderId t = ''o1'') (orderTrack_tbl (track_run created_db
     [PostCreate (Some ''o1'') ''t2'', Consume (Some (OrderCreated ''o1'' [''p1''])) ''t3'']))) \<le> 1 \<and>
   store (track_create created_db (Some ''o1'') ''t2'') = created_db \<and>
   track_consume created_db (Some (OrderCreated ''o1'' [''p1''])) ''t2'' = throws created_db"
proof -
  have h: "distinct (map orderId (orderTrack_tbl created_db))"
    by (simp add: created_db_def)
  have k: "orderTrack_byOrder created_db ''o1'' \<noteq> None"
    by (simp add: created_db_def orderTrack_byOrder_def)
  from h k order_track_unique[OF h, of
      "[PostCreate (Some ''o1'') ''t2'', Consume (Some (OrderCreated ''o1'' [''p1''])) ''t3'']"
      "''o1''" "''t2''" "[''p1'']"]
  show ?thesis by blast
qed

section \<open>Inventory: the availability decision\<close>

text \<open>
  The availability decision in closed form: the grouping counts each requested
  identifier, and the check ranges over the stored rows whose identifier was requested.
  A requested identifier with no stored row is not looked at; a stored row whose
  identifier names a member of \<^verbatim>\<open>Object.prototype\<close> makes the request unavailable.
\<close>

lemma foldl_group_step:
  "foldl group_step acc ids k =
     (case acc k of
        None \<Rightarrow>
          if k \<in> set ids
          then Some (if k \<in> set object_prototype_keys then NotANumber
                     else Count (count_list ids k))
          else None
      | Some (Count c) \<Rightarrow> Some (Count (c + count_list ids k))
      | Some NotANumber \<Rightarrow> Some NotANumber)"
proof (induction ids arbitrary: acc)
  case Nil
  then show ?case by (simp split: option.splits entry.splits)
next
  case (Cons a ids)
  have g: "group_step acc a k =
      (if k = a
       then Some (case acc a of
                    None \<Rightarrow> if a \<in> set object_prototype_keys then NotANumber else Count 1
                  | Some (Count c) \<Rightarrow> Count (c + 1)
                  | Some NotANumber \<Rightarrow> NotANumber)
       else acc k)"
    by (simp add: group_step_def)
  show ?case
    by (auto simp: Cons.IH g split: option.splits entry.splits)
qed

lemma groupedProducts_count:
  "groupedProducts ids k =
     (if k \<in> set ids
      then Some (if k \<in> set object_prototype_keys then NotANumber
                 else Count (count_list ids k))
      else None)"
  by (simp add: groupedProducts_def foldl_group_step)

lemma isAvailable_found:
  "isAvailable (products_findMany d ids) (groupedProducts ids) \<longleftrightarrow>
     (\<forall>p \<in> set (products_tbl d). product_id p \<in> set ids \<longrightarrow>
        product_id p \<notin> set object_prototype_keys \<and>
        int (count_list ids (product_id p)) \<le> stockAmount p)"
  by (auto simp: isAvailable_def products_findMany_def groupedProducts_count list_all_iff
      count_list_0_iff)

text \<open>
  Claim C2. The store holds product p1 only (stock 100) and the request names p1 and
  p2. The rows found are those of p1 alone, and both the synchronous check and the
  \<^verbatim>\<open>order.created\<close> handler report isAvailable true although p2 is no stored product.
\<close>

theorem partial_match_reported_available:
  "map product_id (products_findMany (fresh_db 5) [''p1'', ''p2'']) = [''p1''] \<and>
   reply (inventory_check (fresh_db 5) (Some ''o1'') (Some [''p1'', ''p2'']))
     = Some (200, CheckInventoryResponse ''o1'' True) \<and>
   outbox (inventory_consume (fresh_db 5) (Some (OrderCreated ''o1'' [''p1'', ''p2''])))
     = [InventoryChecked ''o1'' True]"
  by (simp add: fresh_db_def seed_db_def products_findMany_def inventory_check_def
      isAvailable_def groupedProducts_def group_step_def object_prototype_keys_def
      order_connect_products_def order_findUnique_def respond_def publish_def
      List.union_def)

text \<open>
  Claim C8, as amended. When no stored product matches the requested identifiers, the
  synchronous check answers 404 (for a request that passes the guard on its body), and
  the \<^verbatim>\<open>order.created\<close> handler logs and returns: the store is as it was and no event
  is published.
\<close>

theorem empty_match_handling:
  assumes "products_findMany d productIds = []"
  shows "inventory_consume d (Some (OrderCreated oid productIds)) = silent d \<and>
    (oid \<noteq> [] \<and> productIds \<noteq> [] \<longrightarrow>
       inventory_check d (Some oid) (Some productIds)
         = respond d 404 (ErrorBody ''Products not found''))"
  using assms by (simp add: inventory_check_def)

text \<open>
  Claim C8 as stated fails on the asynchronous path: on an empty match the handler
  publishes nothing, so its outward effect is not that of an \<^verbatim>\<open>inventory.checked\<close> event
  with isAvailable false.
\<close>

theorem empty_match_publishes_nothing:
  "products_findMany (fresh_db 5) [''p9''] = [] \<and>
   outbox (inventory_consume (fresh_db 5) (Some (OrderCreated ''o1'' [''p9''])))
     \<noteq> [InventoryChecked ''o1'' False] \<and>
   outbox (inventory_consume (fresh_db 5) (Some (OrderCreated ''o1'' [''p9'']))) = []"
  by (simp add: fresh_db_def seed_db_def products_findMany_def silent_def)

text \<open>
  Claim C8, witness of the amended statement: a request for the unknown product p9.
\<close>

theorem empty_match_handling_witness:
  "products_findMany (fresh_db 5) [''p9''] = [] \<and>
   inventory_consume (fresh_db 5) (Some (OrderCreated ''o1'' [''p9''])) = silent (fresh_db 5) \<and>
   inventory_check (fresh_db 5) (Some ''o1'') (Some [''p9''])
     = respond (fresh_db 5) 404 (ErrorBody ''Products not found'')"
proof -
  have h: "products_findMany (fresh_db 5) [''p9''] = []"
    by (simp add: fresh_db_def seed_db_def products_findMany_def)
  from h empty_match_handling[OF h, of "''o1''"] show ?thesis by simp
qed

section \<open>Payment: settlement\<close>

lemma order_with_payment_SomeD:
  assumes "order_with_payment d oid = Inr (Some (ord, bal, prices))"
  shows "order_findUnique d oid = Some ord"
    and "(user_findUnique d (userId ord) = None) = False"
    and "prices = map price (attached d ord)"
    and "order_id ord = oid"
  using assms
  by (auto simp: order_with_payment_def order_findUnique_def find_Some_iff
      split: option.splits)


lemma user_tbl_decremented [simp]: "user_tbl (decremented d pids) = user_tbl d"
  by (simp add: decremented_def)

lemma user_findUnique_decremented [simp]:
  "user_findUnique (decremented d pids) uid = user_findUnique d uid"
  by (simp add: user_findUnique_def)

lemma debit_defined_decremented [simp]:
  "debit_defined ar (decremented d pids) uid amount = debit_defined ar d uid amount"
  by (simp add: debit_defined_def)

lemma axios_inventory_update:
  assumes "oid \<noteq> []" and "order_findUnique d oid = Some ord"
  shows "axios up (inventory_update d oid) d =
     (if up \<and> decrement_in_range d (order_products ord)
      then (decremented d (order_products ord),
            Some (200, MsgBody ''Inventory updated successfully''))
      else (d, None))"
  using assms
  by (simp add: axios_def inventory_update_def products_decrement_def respond_def)

text \<open>
  The two settlement paths on an existing order whose buyer is stored, in closed form.
\<close>

lemma payment_post_existing:
  assumes "order_with_payment d oid = Inr (Some (ord, bal, prices))" and "oid \<noteq> []"
  shows "payment_post ar d (Some oid) inv_up deb_ok =
     (if f_less ar bal (totalAmount ar prices)
      then respond d 400 (PaymentProcessedResponse (Some oid) ''failed'')
      else if \<not> (inv_up \<and> decrement_in_range d (order_products ord))
      then respond d 500 (ErrorBody ''Internal Server Error while calling inventory Endpoint'')
      else if \<not> (deb_ok \<and> debit_defined ar d (userId ord) (totalAmount ar prices))
      then respond (decremented d (order_products ord)) 500
             (ErrorBody ''Internal Server Error while processing payment'')
      else respond
             ((decremented d (order_products ord))\<lparr>user_tbl :=
                map (debit ar (userId ord) (totalAmount ar prices)) (user_tbl d)\<rparr>)
             200 (PaymentProcessedResponse (Some oid) ''success''))"
  using assms order_with_payment_SomeD[OF assms(1)]
  by (auto simp: payment_post_def axios_inventory_update user_decrement_def)

lemma payment_consume_existing:
  assumes "order_with_payment d oid = Inr (Some (ord, bal, prices))"
  shows "payment_consume ar d (Some (InventoryChecked oid True)) deb_ok =
     (if f_less ar bal (totalAmount ar prices)
      then publish d (PaymentProcessed oid ''failed'')
      else if \<not> (deb_ok \<and> debit_defined ar d (userId ord) (totalAmount ar prices))
      then silent d
      else publish
             (d\<lparr>user_tbl := map (debit ar (userId ord) (totalAmount ar prices)) (user_tbl d)\<rparr>)
             (PaymentProcessed oid ''success''))"
  using assms order_with_payment_SomeD[OF assms]
  by (auto simp: payment_consume.simps user_decrement_def)


text \<open>Facts about the example stores.\<close>

lemma shop_order:
  "order_with_payment (shop_db bal) ''o1'' =
     Inr (Some (\<lparr>order_id = ''o1'', userId = default_user, order_products = [''p1'']\<rparr>, bal, [1]))"
  by (simp add: shop_db_def seed_db_def order_with_payment_def order_findUnique_def
      user_findUnique_def attached_def)

lemma fresh_order:
  "order_with_payment (fresh_db bal) ''o1'' =
     Inr (Some (\<lparr>order_id = ''o1'', userId = default_user, order_products = []\<rparr>, bal, []))"
  by (simp add: fresh_db_def seed_db_def order_with_payment_def order_findUnique_def
      user_findUnique_def attached_def)

lemma whole_total: "totalAmount whole_amounts [1] = 1"
  by (simp add: totalAmount_def whole_amounts_def)

lemma whole_less: "f_less whole_amounts x y = (x < y)"
  by (simp add: whole_amounts_def)


lemma shop_in_range: "decrement_in_range (shop_db bal) [''p1'']"
  by (simp add: decrement_in_range_def int32_def shop_db_def seed_db_def)

lemma shop_users: "user_tbl (shop_db bal) = [\<lparr>user_id = default_user, balance = bal\<rparr>]"
  by (simp add: shop_db_def seed_db_def)

lemma shop_products:
  "products_tbl (shop_db bal) = [\<lparr>product_id = ''p1'', price = 1, stockAmount = 100\<rparr>]"
  by (simp add: shop_db_def seed_db_def)



text \<open>
  Claim C9. In POST /api/v1/payment the stock decrement comes before the debit. When
  the balance check passes, the inventory call goes through with the decrement in
  range, and the debit then fails (the store is not reached, or its subtraction
  raises), the handler answers 500 with each attached product's stock decremented by 1
  and every balance as it was. When the inventory call does not go through, nothing is
  debited and the store is as it was.
\<close>

theorem stock_decrement_not_undone:
  assumes "order_with_payment d oid = Inr (Some (ord, bal, prices))" and "oid \<noteq> []"
    and "\<not> f_less ar bal (totalAmount ar prices)"
    and "decrement_in_range d (order_products ord)"
    and "\<not> deb_ok \<or> \<not> debit_defined ar d (userId ord) (totalAmount ar prices)"
  shows "reply (payment_post ar d (Some oid) True deb_ok)
       = Some (500, ErrorBody ''Internal Server Error while processing payment'')
    \<and> products_tbl (store (payment_post ar d (Some oid) True deb_ok))
       = map (\<lambda>p. if product_id p \<in> set (order_products ord)
                   then p\<lparr>stockAmount := stockAmount p - 1\<rparr> else p) (products_tbl d)
    \<and> user_tbl (store (payment_post ar d (Some oid) True deb_ok)) = user_tbl d
    \<and> store (payment_post ar d (Some oid) False k) = d"
  using assms(3,4,5)
  by (auto simp: payment_post_existing[OF assms(1,2)] respond_def decremented_def)

text \<open>
  Claim C9, witness: the store is not reached for the debit; the stock of p1 goes from
  100 to 99 and the balance stays 1000.
\<close>

theorem stock_decrement_not_undone_witness:
  "order_with_payment (shop_db 1000) ''o1'' =
     Inr (Some (\<lparr>order_id = ''o1'', userId = default_user, order_products = [''p1'']\<rparr>, 1000, [1])) \<and>
   \<not> f_less whole_amounts 1000 (totalAmount whole_amounts [1]) \<and>
   decrement_in_range (shop_db 1000) [''p1''] \<and>
   map_option fst (reply (payment_post whole_amounts (shop_db 1000) (Some ''o1'') True False))
     = Some 500 \<and>
   map stockAmount (products_tbl (shop_db 1000)) = [100] \<and>
   map stockAmount (products_tbl (store
       (payment_post whole_amounts (shop_db 1000) (Some ''o1'') True False))) = [99] \<and>
   map balance (user_tbl (store
       (payment_post whole_amounts (shop_db 1000) (Some ''o1'') True False))) = [1000]"
proof -
  have t: "\<not> f_less whole_amounts 1000 (totalAmount whole_amounts [1])"
    by (simp add: whole_total whole_less)
  have e: "''o1'' \<noteq> []"
    by simp
  have r: "decrement_in_range (shop_db 1000)
      (order_products \<lparr>order_id = ''o1'', userId = default_user, order_products = [''p1'']\<rparr>)"
    by (simp add: shop_in_range)
  have f: "\<not> False \<or> \<not> debit_defined whole_amounts (shop_db 1000)
      (userId \<lparr>order_id = ''o1'', userId = default_user, order_products = [''p1'']\<rparr>)
      (totalAmount whole_amounts [1])"
    by simp
  from stock_decrement_not_undone[OF shop_order[of 1000] e t r f, of True]
    shop_order[of 1000] t shop_in_range[of 1000] shop_products[of 1000] shop_users[of 1000]
  show ?thesis by simp
qed

lemma decrement_in_range_none: "decrement_in_range d []"
  by (simp add: decrement_in_range_def)

lemma decremented_none: "decremented d [] = d"
  by (simp add: decremented_def)

lemma map_debit_zero:
  assumes "\<And>x. f_sub ar x amount = Some x"
  shows "map (debit ar uid amount) us = us"
  by (induction us) (simp_all add: debit_def assms)

lemma debit_defined_zero:
  assumes "\<And>x. f_sub ar x amount = Some x"
  shows "debit_defined ar d uid amount"
  by (simp add: debit_defined_def list_all_iff assms)

text \<open>
  Claim C10, as amended. For an existing order with no attached products the total is
  the 0 the fold starts from. With a balance that the code's comparison does not find
  below 0, and with the store's subtraction of 0 giving back the number it is taken
  from, the balance check passes; when the store is reached for the debit (and, on the
  synchronous path, the inventory service is reached) both paths report success and
  leave the store as it was; whatever happens to those two calls, every balance is as
  it was.
\<close>

theorem empty_order_settlement:
  assumes "order_with_payment d oid = Inr (Some (ord, bal, prices))" and "oid \<noteq> []"
    and "order_products ord = []" and "\<not> f_less ar bal (f_zero ar)"
    and "\<And>x. f_sub ar x (f_zero ar) = Some x"
  shows "totalAmount ar prices = f_zero ar
    \<and> payment_consume ar d (Some (InventoryChecked oid True)) True
        = publish d (PaymentProcessed oid ''success'')
    \<and> payment_post ar d (Some oid) True True
        = respond d 200 (PaymentProcessedResponse (Some oid) ''success'')
    \<and> user_tbl (store (payment_consume ar d (Some (InventoryChecked oid True)) deb_ok))
        = user_tbl d
    \<and> user_tbl (store (payment_post ar d (Some oid) inv_up deb_ok)) = user_tbl d"
proof -
  have pr: "prices = []"
    using order_with_payment_SomeD(3)[OF assms(1)] assms(3) by (simp add: attached_def)
  have t: "totalAmount ar prices = f_zero ar"
    by (simp add: pr totalAmount_def)
  have z: "\<not> f_less ar bal (totalAmount ar prices)"
    using assms(4) by (simp add: t)
  have m: "map (debit ar uid (totalAmount ar prices)) us = us" for uid us
    unfolding t by (rule map_debit_zero) (rule assms(5))
  have dd: "debit_defined ar d uid (totalAmount ar prices)" for uid
    unfolding t by (rule debit_defined_zero) (rule assms(5))
  have same: "d\<lparr>user_tbl := user_tbl d\<rparr> = d"
    by simp
  have c: "payment_consume ar d (Some (InventoryChecked oid True)) k =
      (if k then publish d (PaymentProcessed oid ''success'') else silent d)" for k
    by (simp add: payment_consume_existing[OF assms(1)] z m dd same)
  have p: "payment_post ar d (Some oid) i k =
      (if \<not> i
       then respond d 500 (ErrorBody ''Internal Server Error while calling inventory Endpoint'')
       else if \<not> k
       then respond d 500 (ErrorBody ''Internal Server Error while processing payment'')
       else respond d 200 (PaymentProcessedResponse (Some oid) ''success''))" for i k
    by (simp add: payment_post_existing[OF assms(1,2)] z assms(3) m dd same
        decrement_in_range_none decremented_none)
  show ?thesis
    by (simp add: t c p respond_def publish_def silent_def)
qed

text \<open>
  Claim C10, witness of the amended statement: an order without products, balance 5.
\<close>

theorem empty_order_settlement_witness:
  "order_with_payment (fresh_db 5) ''o1'' =
     Inr (Some (\<lparr>order_id = ''o1'', userId = default_user, order_products = []\<rparr>, 5, [])) \<and>
   \<not> f_less whole_amounts 5 (f_zero whole_amounts) \<and>
   payment_consume whole_amounts (fresh_db 5) (Some (InventoryChecked ''o1'' True)) True
     = publish (fresh_db 5) (PaymentProcessed ''o1'' ''success'') \<and>
   payment_post whole_amounts (fresh_db 5) (Some ''o1'') True True
     = respond (fresh_db 5) 200 (PaymentProcessedResponse (Some ''o1'') ''success'')"
proof -
  have e: "''o1'' \<noteq> []"
    by simp
  have z: "\<not> f_less whole_amounts 5 (f_zero whole_amounts)"
    by (simp add: whole_amounts_def)
  have o: "order_products \<lparr>order_id = ''o1'', userId = default_user, order_products = []\<rparr> = []"
    by simp
  have s: "f_sub whole_amounts x (f_zero whole_amounts) = Some x" for x
    by (simp add: whole_amounts_def)
  from empty_order_settlement[OF fresh_order[of 5] e o z s, of True True] fresh_order[of 5] z
  show ?thesis by simp
qed

text \<open>
  Claim C10 as stated fails on the synchronous path: for an order without products and
  a balance of 5, the handler answers 500 when the inventory service cannot be reached.
\<close>

theorem empty_order_not_settled:
  "order_with_payment (fresh_db 5) ''o1'' =
     Inr (Some (\<lparr>order_id = ''o1'', userId = default_user, order_products = []\<rparr>, 5, [])) \<and>
   reply (payment_post whole_amounts (fresh_db 5) (Some ''o1'') False True)
     = Some (500, ErrorBody ''Internal Server Error while calling inventory Endpoint'')"
  using fresh_order[of 5] payment_post_existing[OF fresh_order[of 5], of whole_amounts False True]
  by (simp add: totalAmount_def whole_amounts_def respond_def)

section \<open>Order coordination\<close>

text \<open>
  Claim C7. POST /api/v2/order with productId p1 while the broker channel has not been
  set up: the order row is created, then the handler throws. It writes no response and
  publishes nothing. With a channel whose publish returns false it answers 500.
\<close>

theorem channel_unavailable_no_response:
  "reply (order_post_v2 (seed_db 1000) (Some ''p1'') ''o1'' None) = None \<and>
   rejected (order_post_v2 (seed_db 1000) (Some ''p1'') ''o1'' None) \<and>
   outbox (order_post_v2 (seed_db 1000) (Some ''p1'') ''o1'' None) = [] \<and>
   map order_id (order_tbl (store (order_post_v2 (seed_db 1000) (Some ''p1'') ''o1'' None)))
     = [''o1''] \<and>
   map_option fst (reply (order_post_v2 (seed_db 1000) (Some ''p1'') ''o1'' (Some False)))
     = Some 500"
  by (simp add: order_post_v2_def order_create_def seed_db_def user_findUnique_def
      order_findUnique_def throws_def Let_def)

lemma reply_respond: "reply (respond d st b) = Some (st, b)"
  by (simp add: respond_def)

lemma store_respond: "store (respond d st b) = d"
  by (simp add: respond_def)

lemma axios_respond:
  "axios up (respond d' st b) d =
     (if \<not> up then (d, None) else if st < 500 then (d', Some (st, b)) else (d', None))"
  by (simp add: axios_def respond_def)

lemma orderTrack_tbl_products_decrement:
  "products_decrement d pids = Inr d' \<Longrightarrow> orderTrack_tbl d' = orderTrack_tbl d"
  by (auto simp: products_decrement_def decremented_def split: if_splits)

lemma orderTrack_tbl_inventory_update [simp]:
  "orderTrack_tbl (store (inventory_update d oid)) = orderTrack_tbl d"
  by (auto simp: inventory_update_def respond_def dest: orderTrack_tbl_products_decrement
      split: option.splits sum.splits)

lemma orderTrack_tbl_axios:
  assumes "orderTrack_tbl (store e) = orderTrack_tbl d" and "axios up e d = (d1, res)"
  shows "orderTrack_tbl d1 = orderTrack_tbl d"
  using assms by (auto simp: axios_def split: option.splits if_splits)

lemma orderTrack_tbl_user_decrement:
  "user_decrement ar d uid a k = Inr d' \<Longrightarrow> orderTrack_tbl d' = orderTrack_tbl d"
  by (auto simp: user_decrement_def split: if_splits)

lemma orderTrack_tbl_payment_post:
  "orderTrack_tbl (store (payment_post ar d b iu k)) = orderTrack_tbl d"
proof -
  have a: "axios iu (inventory_update d oid) d = (d1, res) \<Longrightarrow>
      orderTrack_tbl d1 = orderTrack_tbl d" for oid d1 res
    by (rule orderTrack_tbl_axios[of "inventory_update d oid"]) simp_all
  show ?thesis
    by (auto simp: payment_post_def respond_def
        dest!: orderTrack_tbl_user_decrement a
        split: option.splits sum.splits prod.splits)
qed

lemma orderTrack_findUnique_cong:
  "orderTrack_tbl d' = orderTrack_tbl d \<Longrightarrow> orderTrack_findUnique d' tid = orderTrack_findUnique d tid"
  by (simp add: orderTrack_findUnique_def)

lemma find_status_update:
  "find (\<lambda>t. track_id t = tid) ts = Some t \<Longrightarrow>
     find (\<lambda>t. track_id t = tid)
       (map (\<lambda>t. if track_id t = tid then t\<lparr>status := st\<rparr> else t) ts)
     = Some (t\<lparr>status := st\<rparr>)"
  by (induction ts) (auto split: if_splits)

lemma track_update_existing:
  assumes "tid \<noteq> []" and "orderTrack_findUnique d tid = Some t"
    and "st = ''paid'' \<or> st = ''canceled''"
  shows "track_update d tid (Some st) =
     respond (d\<lparr>orderTrack_tbl :=
        map (\<lambda>t. if track_id t = tid then t\<lparr>status := st\<rparr> else t) (orderTrack_tbl d)\<rparr>)
       200 (MsgBody ''Tracker updated'')"
  using assms
  by (auto simp: track_update_def orderTrack_update_id_def try_send_def respond_def)

lemma axios_track_update:
  assumes "tid \<noteq> []" and "orderTrack_findUnique d tid = Some t"
    and "st = ''paid'' \<or> st = ''canceled''"
  shows "axios up (track_update d tid (Some st)) d =
     (if up
      then (d\<lparr>orderTrack_tbl :=
              map (\<lambda>t. if track_id t = tid then t\<lparr>status := st\<rparr> else t) (orderTrack_tbl d)\<rparr>,
            Some (200, MsgBody ''Tracker updated''))
      else (d, None))"
  by (simp add: axios_def track_update_existing[OF assms] respond_def)

text \<open>
  Claim C5, as amended. At the payment step of POST /api/v1/order, with the tracker
  already created: when the payment call rejects, the coordinator answers 500 and the
  trackers are as they were. When the payment call reports failure (a status other than
  200, or a body whose status is not success), the coordinator calls the tracker update
  with canceled; if that call goes through it answers 400 and the tracker is canceled,
  and if that call rejects it answers 500 and the trackers are as they were. When the
  payment succeeded, the confirming update to paid behaves the same way, with 201.
\<close>

theorem payment_step_compensation:
  fixes ar :: "'f arith" and d :: "'f db" and ev :: env and createdOrder :: Order
    and trackerId :: string and productId :: string
  defines "pay \<equiv> axios (payment_up ev)
      (payment_post ar d (Some (order_id createdOrder)) (payment_inventory_up ev) (debit_ok ev)) d"
    and "r \<equiv> order_pay ar d ev createdOrder trackerId productId"
  assumes "trackerId \<noteq> []" and "orderTrack_findUnique d trackerId = Some t"
  shows "case snd pay of
       None \<Rightarrow>
         map_option fst (reply r) = Some 500 \<and> orderTrack_tbl (store r) = orderTrack_tbl d
     | Some (st, b) \<Rightarrow>
         if st \<noteq> 200 \<or> data_status b \<noteq> Some ''success''
         then if tracking_update_up ev
              then map_option fst (reply r) = Some 400 \<and>
                   orderTrack_findUnique (store r) trackerId = Some (t\<lparr>status := ''canceled''\<rparr>)
              else map_option fst (reply r) = Some 500 \<and>
                   orderTrack_tbl (store r) = orderTrack_tbl d
         else if tracking_update_up ev
              then map_option fst (reply r) = Some 201 \<and>
                   orderTrack_findUnique (store r) trackerId = Some (t\<lparr>status := ''paid''\<rparr>)
              else map_option fst (reply r) = Some 500 \<and>
                   orderTrack_tbl (store r) = orderTrack_tbl d"
proof -
  obtain d1 res where p: "pay = (d1, res)"
    by (cases pay)
  have tbl: "orderTrack_tbl d1 = orderTrack_tbl d"
    using orderTrack_tbl_axios[of "payment_post ar d (Some (order_id createdOrder))
        (payment_inventory_up ev) (debit_ok ev)" d "payment_up ev" d1 res] p
    by (simp add: pay_def orderTrack_tbl_payment_post)
  have f: "orderTrack_findUnique d1 trackerId = Some t"
    using assms(4) orderTrack_findUnique_cong[OF tbl] by simp
  have fu: "orderTrack_findUnique
       (d1\<lparr>orderTrack_tbl :=
          map (\<lambda>t. if track_id t = trackerId then t\<lparr>status := st\<rparr> else t) (orderTrack_tbl d1)\<rparr>)
       trackerId = Some (t\<lparr>status := st\<rparr>)" for st
    using f by (simp add: orderTrack_findUnique_def find_status_update)
  have c: "axios up (track_update d1 trackerId (Some ''canceled'')) d1 =
     (if up
      then (d1\<lparr>orderTrack_tbl :=
              map (\<lambda>t. if track_id t = trackerId then t\<lparr>status := ''canceled''\<rparr> else t)
                (orderTrack_tbl d1)\<rparr>,
            Some (200, MsgBody ''Tracker updated''))
      else (d1, None))" for up
    by (rule axios_track_update[OF assms(3) f]) simp
  have q: "axios up (track_update d1 trackerId (Some ''paid'')) d1 =
     (if up
      then (d1\<lparr>orderTrack_tbl :=
              map (\<lambda>t. if track_id t = trackerId then t\<lparr>status := ''paid''\<rparr> else t)
                (orderTrack_tbl d1)\<rparr>,
            Some (200, MsgBody ''Tracker updated''))
      else (d1, None))" for up
    by (rule axios_track_update[OF assms(3) f]) simp
  show ?thesis
  proof (cases res)
    case None
    then show ?thesis
      using p tbl by (simp add: r_def order_pay_def pay_def[symmetric] respond_def)
  next
    case (Some sb)
    obtain st b where sb: "sb = (st, b)"
      by (cases sb)
    show ?thesis
      using p Some sb tbl fu
      by (simp add: r_def order_pay_def pay_def[symmetric] c q respond_def)
  qed
qed


lemma shop_payment_fails:
  "payment_post whole_amounts (shop_db 0) (Some ''o1'') iu k =
     respond (shop_db 0) 400 (PaymentProcessedResponse (Some ''o1'') ''failed'')"
  by (simp add: payment_post_existing[OF shop_order[of 0]] whole_total whole_less)

lemma shop_tracker:
  "orderTrack_findUnique (shop_db bal) ''t1''
     = Some \<lparr>track_id = ''t1'', orderId = ''o1'', status = ''created''\<rparr>"
  by (simp add: orderTrack_findUnique_def shop_db_def seed_db_def)

lemma shop_tracks:
  "orderTrack_tbl (shop_db bal) = [\<lparr>track_id = ''t1'', orderId = ''o1'', status = ''created''\<rparr>]"
  by (simp add: shop_db_def seed_db_def)

text \<open>
  Claim C5, witness of the amended statement: a buyer with balance 0 (400, tracker
  canceled), and the payment service out of reach (500, tracker still created).
\<close>

theorem payment_step_compensation_witness:
  "''t1'' \<noteq> [] \<and>
   orderTrack_findUnique (shop_db 0) ''t1''
     = Some \<lparr>track_id = ''t1'', orderId = ''o1'', status = ''created''\<rparr> \<and>
   reply (payment_post whole_amounts (shop_db 0) (Some ''o1'') True True)
     = Some (400, PaymentProcessedResponse (Some ''o1'') ''failed'') \<and>
   map_option fst (reply (order_pay whole_amounts (shop_db 0) all_up
       \<lparr>order_id = ''o1'', userId = default_user, order_products = []\<rparr> ''t1'' ''p1'')) = Some 400 \<and>
   orderTrack_findUnique (store (order_pay whole_amounts (shop_db 0) all_up
       \<lparr>order_id = ''o1'', userId = default_user, order_products = []\<rparr> ''t1'' ''p1'')) ''t1''
     = Some \<lparr>track_id = ''t1'', orderId = ''o1'', status = ''canceled''\<rparr> \<and>
   map_option fst (reply (order_pay whole_amounts (shop_db 0) (all_up\<lparr>payment_up := False\<rparr>)
       \<lparr>order_id = ''o1'', userId = default_user, order_products = []\<rparr> ''t1'' ''p1'')) = Some 500 \<and>
   orderTrack_tbl (store (order_pay whole_amounts (shop_db 0) (all_up\<lparr>payment_up := False\<rparr>)
       \<lparr>order_id = ''o1'', userId = default_user, order_products = []\<rparr> ''t1'' ''p1''))
     = [\<lparr>track_id = ''t1'', orderId = ''o1'', status = ''created''\<rparr>]"
proof -
  have e: "''t1'' \<noteq> []"
    by simp
  have b: "axios False x (shop_db 0) = (shop_db 0, None)" for x
    by (simp add: axios_def)
  from payment_step_compensation[OF e shop_tracker[of 0], where ar = whole_amounts
      and ev = all_up and productId = "''p1''"
      and createdOrder = "\<lparr>order_id = ''o1'', userId = default_user, order_products = []\<rparr>"]
    payment_step_compensation[OF e shop_tracker[of 0], where ar = whole_amounts
      and ev = "all_up\<lparr>payment_up := False\<rparr>" and productId = "''p1''"
      and createdOrder = "\<lparr>order_id = ''o1'', userId = default_user, order_products = []\<rparr>"]
    shop_tracker[of 0] shop_tracks[of 0]
  show ?thesis
    by (simp add: all_up_def shop_payment_fails axios_respond b reply_respond)
qed

lemma seed_order_reserved:
  "axios True (inventory_check
       ((seed_db bal)\<lparr>order_tbl := [\<lparr>order_id = ''o1'', userId = default_user, order_products = []\<rparr>]\<rparr>)
       (Some ''o1'') (Some [''p1'']))
     ((seed_db bal)\<lparr>order_tbl := [\<lparr>order_id = ''o1'', userId = default_user, order_products = []\<rparr>]\<rparr>)
   = ((seed_db bal)\<lparr>order_tbl :=
        [\<lparr>order_id = ''o1'', userId = default_user, order_products = [''p1'']\<rparr>]\<rparr>,
      Some (200, CheckInventoryResponse ''o1'' True))"
  by (simp add: axios_def inventory_check_def products_findMany_def isAvailable_def
      groupedProducts_def group_step_def object_prototype_keys_def
      order_connect_products_def order_findUnique_def respond_def seed_db_def
      List.union_def)

lemma seed_order_tracked:
  "axios True (track_create
       ((seed_db bal)\<lparr>order_tbl :=
          [\<lparr>order_id = ''o1'', userId = default_user, order_products = [''p1'']\<rparr>]\<rparr>)
       (Some ''o1'') ''t1'')
     ((seed_db bal)\<lparr>order_tbl :=
        [\<lparr>order_id = ''o1'', userId = default_user, order_products = [''p1'']\<rparr>]\<rparr>)
   = (shop_db bal, Some (201, CreateTrackerResponse ''t1'' ''created''))"
  by (simp add: axios_def track_create_def orderTrack_create_def order_findUnique_def
      orderTrack_byOrder_def orderTrack_findUnique_def respond_def seed_db_def shop_db_def
      Let_def)

lemma order_post_v1_seed:
  assumes "inventory_up ev" and "tracking_create_up ev"
    and "newOrderId ev = ''o1''" and "newTrackerId ev = ''t1''"
  shows "order_post_v1 whole_amounts (seed_db bal) (Some ''p1'') ev =
     order_pay whole_amounts (shop_db bal) ev
       \<lparr>order_id = ''o1'', userId = default_user, order_products = []\<rparr> ''t1'' ''p1''"
proof -
  have c: "order_create (seed_db bal) ''o1'' =
      Inr (\<lparr>order_id = ''o1'', userId = default_user, order_products = []\<rparr>,
           (seed_db bal)\<lparr>order_tbl :=
             [\<lparr>order_id = ''o1'', userId = default_user, order_products = []\<rparr>]\<rparr>)"
    by (simp add: order_create_def user_findUnique_def order_findUnique_def seed_db_def Let_def)
  show ?thesis
    using assms by (simp add: order_post_v1_def c seed_order_reserved seed_order_tracked)
qed

text \<open>
  Claim C5 as stated fails: the buyer's balance is 0, so the payment step reports
  failed, and the tracking service cannot be reached for the compensating update. The
  coordinator answers 500, not 400, and the tracker is still in status created.
\<close>

theorem compensation_call_fails:
  "reply (payment_post whole_amounts (shop_db 0) (Some ''o1'') True True)
     = Some (400, PaymentProcessedResponse (Some ''o1'') ''failed'') \<and>
   map_option fst (reply (order_post_v1 whole_amounts (seed_db 0) (Some ''p1'')
       (all_up\<lparr>tracking_update_up := False\<rparr>))) = Some 500 \<and>
   orderTrack_tbl (store (order_post_v1 whole_amounts (seed_db 0) (Some ''p1'')
       (all_up\<lparr>tracking_update_up := False\<rparr>)))
     = [\<lparr>track_id = ''t1'', orderId = ''o1'', status = ''created''\<rparr>]"
proof -
  have b: "axios False x (shop_db 0) = (shop_db 0, None)" for x
    by (simp add: axios_def)
  have v: "order_post_v1 whole_amounts (seed_db 0) (Some ''p1'') (all_up\<lparr>tracking_update_up := False\<rparr>) =
      order_pay whole_amounts (shop_db 0) (all_up\<lparr>tracking_update_up := False\<rparr>)
        \<lparr>order_id = ''o1'', userId = default_user, order_products = []\<rparr> ''t1'' ''p1''"
    by (rule order_post_v1_seed) (simp_all add: all_up_def)
  show ?thesis
    unfolding v
    by (simp add: order_pay_def all_up_def shop_payment_fails axios_respond b
        reply_respond store_respond shop_tracks)
qed

text \<open>
  The scenarios of the synchronous path: a buyer who can pay gets 201, the tracker is
  paid, one unit leaves the stock and the price leaves the balance; a buyer without
  funds gets 400 and the tracker is canceled.
\<close>

lemma scenario_paid:
  "order_post_v1 whole_amounts (seed_db 1000) (Some ''p1'') all_up =
     respond
       \<lparr>order_tbl = [\<lparr>order_id = ''o1'', userId = default_user, order_products = [''p1'']\<rparr>],
        user_tbl = [\<lparr>user_id = default_user, balance = 999\<rparr>],
        products_tbl = [\<lparr>product_id = ''p1'', price = 1, stockAmount = 99\<rparr>],
        orderTrack_tbl = [\<lparr>track_id = ''t1'', orderId = ''o1'', status = ''paid''\<rparr>]\<rparr>
       201 (OrderCreatedBody ''Order Created and successfully paid''
         \<lparr>order_id = ''o1'', userId = default_user, order_products = []\<rparr>)"
proof -
  have v: "order_post_v1 whole_amounts (seed_db 1000) (Some ''p1'') all_up =
      order_pay whole_amounts (shop_db 1000) all_up
        \<lparr>order_id = ''o1'', userId = default_user, order_products = []\<rparr> ''t1'' ''p1''"
    by (rule order_post_v1_seed) (simp_all add: all_up_def)
  have p: "payment_post whole_amounts (shop_db 1000) (Some ''o1'') True True =
      respond
        \<lparr>order_tbl = [\<lparr>order_id = ''o1'', userId = default_user, order_products = [''p1'']\<rparr>],
         user_tbl = [\<lparr>user_id = default_user, balance = 999\<rparr>],
         products_tbl = [\<lparr>product_id = ''p1'', price = 1, stockAmount = 99\<rparr>],
         orderTrack_tbl = [\<lparr>track_id = ''t1'', orderId = ''o1'', status = ''created''\<rparr>]\<rparr>
        200 (PaymentProcessedResponse (Some ''o1'') ''success'')"
    by (simp add: payment_post_def order_with_payment_def order_findUnique_def
        user_findUnique_def attached_def totalAmount_def axios_def inventory_update_def
        products_decrement_def decrement_in_range_def int32_def decremented_def
        user_decrement_def debit_defined_def debit_def whole_amounts_def respond_def
        shop_db_def seed_db_def)
  show ?thesis
    unfolding v
    by (simp add: order_pay_def all_up_def p axios_def respond_def track_update_def
        orderTrack_findUnique_def orderTrack_update_id_def try_send_def)
qed

lemma scenario_unpaid:
  "order_post_v1 whole_amounts (seed_db 0) (Some ''p1'') all_up =
     respond ((shop_db 0)\<lparr>orderTrack_tbl :=
         [\<lparr>track_id = ''t1'', orderId = ''o1'', status = ''canceled''\<rparr>]\<rparr>)
       400 (ErrorBody ''Product p1 couldnt be paid'')"
proof -
  have v: "order_post_v1 whole_amounts (seed_db 0) (Some ''p1'') all_up =
      order_pay whole_amounts (shop_db 0) all_up
        \<lparr>order_id = ''o1'', userId = default_user, order_products = []\<rparr> ''t1'' ''p1''"
    by (rule order_post_v1_seed) (simp_all add: all_up_def)
  have u: "track_update (shop_db 0) ''t1'' (Some ''canceled'') =
      respond ((shop_db 0)\<lparr>orderTrack_tbl :=
          [\<lparr>track_id = ''t1'', orderId = ''o1'', status = ''canceled''\<rparr>]\<rparr>)
        200 (MsgBody ''Tracker updated'')"
    by (simp add: track_update_def orderTrack_findUnique_def orderTrack_update_id_def
        try_send_def respond_def shop_db_def seed_db_def)
  show ?thesis
    unfolding v
    by (simp add: order_pay_def all_up_def shop_payment_fails u axios_respond)
qed

end
